theory Spec2Isabelle
  imports Main "HOL-Library.Word"
begin

section \<open>The fork-per-connection server of fork\_server.c\<close>

text \<open>
  The server is a sequential C program whose every observable step is a call into the
  operating system or the C library. The embedding follows one process at a time: the
  values the calls return are read from a script, every call is appended to a trace, and
  the process carries its table of open descriptors and its \<open>errno\<close>. The C type
  \<open>int\<close> of descriptors, return values and process ids is \<open>int\<close>: the program compares
  them with zero and does no arithmetic on them.
\<close>

subsection \<open>What the operating system reports\<close>

datatype errno =
    E0 | EAGAIN | EINTR | ECONNABORTED | EMFILE | ENFILE | ENOBUFS | ENOMEM
  | EBADF | EINVAL | ENOTSOCK | EOPNOTSUPP | EADDRINUSE | EACCES
  | ECONNRESET | EPIPE | ECHILD

text \<open>The value a call returns, and the \<open>errno\<close> it leaves when that value is negative.\<close>

type_synonym sysret = "int \<times> errno"

text \<open>
  What the first \<open>read\<close> on a connection finds: a failure, or the bytes that have arrived
  (none when the peer has closed without sending).
\<close>

datatype incoming = Read_fails errno | Data string

text \<open>One round of the accept loop: the results of the calls that round may make.\<close>

record conn_event =
  accept_ret :: sysret
  fork_ret :: sysret
  request :: incoming
  write_ret :: sysret

record env =
  socket_ret :: sysret
  bind_ret :: sysret
  listen_ret :: sysret
  conns :: "conn_event list"

subsection \<open>The process\<close>

datatype call =
    Signal_SIGCHLD
  | Fprintf_stderr string
  | Perror string errno
  | Printf string string
  | Socket
  | Bind int "16 word"
  | Listen int int
  | Accept int
  | Fork
  | Close int
  | Read int nat
  | Write int string
  | Exit int

record proc =
  trace :: "call list"
  fds :: "int list"
  errno :: errno

text \<open>A process starts with standard input, output and error open.\<close>

definition init_proc :: proc where
  "init_proc = \<lparr>trace = [], fds = [0, 1, 2], errno = E0\<rparr>"

definition emit :: "call \<Rightarrow> proc \<Rightarrow> proc" where
  "emit c s = s\<lparr>trace := trace s @ [c]\<rparr>"

definition set_errno :: "sysret \<Rightarrow> proc \<Rightarrow> proc" where
  "set_errno r s = (if fst r < 0 then s\<lparr>errno := snd r\<rparr> else s)"

text \<open>A call that hands out a descriptor (\<open>socket\<close>, \<open>accept\<close>) opens it on success.\<close>

definition open_fd :: "sysret \<Rightarrow> proc \<Rightarrow> proc" where
  "open_fd r s = (if fst r < 0 then s\<lparr>errno := snd r\<rparr> else s\<lparr>fds := fst r # fds s\<rparr>)"

definition sys_socket :: "sysret \<Rightarrow> proc \<Rightarrow> int \<times> proc" where
  "sys_socket r s = (fst r, open_fd r (emit Socket s))"

definition sys_bind :: "sysret \<Rightarrow> int \<Rightarrow> 16 word \<Rightarrow> proc \<Rightarrow> int \<times> proc" where
  "sys_bind r fd port s = (fst r, set_errno r (emit (Bind fd port) s))"

definition sys_listen :: "sysret \<Rightarrow> int \<Rightarrow> int \<Rightarrow> proc \<Rightarrow> int \<times> proc" where
  "sys_listen r fd backlog s = (fst r, set_errno r (emit (Listen fd backlog) s))"

definition sys_accept :: "sysret \<Rightarrow> int \<Rightarrow> proc \<Rightarrow> int \<times> proc" where
  "sys_accept r fd s = (fst r, open_fd r (emit (Accept fd) s))"

definition sys_fork :: "sysret \<Rightarrow> proc \<Rightarrow> int \<times> proc" where
  "sys_fork r s = (fst r, set_errno r (emit Fork s))"

definition sys_close :: "int \<Rightarrow> proc \<Rightarrow> proc" where
  "sys_close fd s = (emit (Close fd) s)\<lparr>fds := removeAll fd (fds s)\<rparr>"

text \<open>
  \<open>read(fd, buf, count)\<close> stores at most \<open>count\<close> bytes at the start of the buffer and
  returns how many it stored; on failure it returns -1 and leaves the buffer alone.
\<close>

definition sys_read :: "incoming \<Rightarrow> int \<Rightarrow> string \<Rightarrow> nat \<Rightarrow> proc \<Rightarrow> (int \<times> string) \<times> proc" where
  "sys_read inc fd buf count s =
     (let s1 = emit (Read fd count) s in
      case inc of
        Read_fails e \<Rightarrow> ((- 1, buf), s1\<lparr>errno := e\<rparr>)
      | Data d \<Rightarrow>
          (let got = take count d
           in ((int (length got), got @ drop (length got) buf), s1)))"

text \<open>\<open>write(fd, data, count)\<close> is handed the first \<open>count\<close> bytes of \<open>data\<close>.\<close>

definition sys_write :: "sysret \<Rightarrow> int \<Rightarrow> string \<Rightarrow> nat \<Rightarrow> proc \<Rightarrow> int \<times> proc" where
  "sys_write r fd data count s = (fst r, set_errno r (emit (Write fd (take count data)) s))"

subsection \<open>C library\<close>

definition NUL :: char where
  "NUL = CHR 0x00"

definition newline :: char where
  "newline = CHR 0x0A"

text \<open>\<open>bzero(buffer, n)\<close> on an array of \<open>n\<close> bytes.\<close>

definition bzero :: "nat \<Rightarrow> string" where
  "bzero n = replicate n NUL"

text \<open>The characters \<open>%s\<close> prints from a char array: those before the first NUL.\<close>

definition c_str :: "string \<Rightarrow> string" where
  "c_str buf = takeWhile (\<lambda>c. c \<noteq> NUL) buf"

definition isspace_c :: "char \<Rightarrow> bool" where
  "isspace_c c = (c = CHR '' '' \<or> (9 \<le> (of_char c :: nat) \<and> (of_char c :: nat) \<le> 13))"

definition isdigit_c :: "char \<Rightarrow> bool" where
  "isdigit_c c = (48 \<le> (of_char c :: nat) \<and> (of_char c :: nat) \<le> 57)"

fun digits_val :: "int \<Rightarrow> string \<Rightarrow> int" where
  "digits_val acc [] = acc"
| "digits_val acc (c # cs) =
     (if isdigit_c c then digits_val (acc * 10 + (int (of_char c) - 48)) cs else acc)"

text \<open>
  \<open>atoi\<close>: leading white space, an optional sign, then decimal digits up to the first
  character that is not one. The value is the mathematical one: for a digit string that
  does not fit \<open>int\<close>, C leaves \<open>atoi\<close> undefined (glibc saturates at \<open>LONG_MAX\<close> and
  truncates), and the model says nothing about what the program then binds.
\<close>

definition atoi :: "string \<Rightarrow> int" where
  "atoi str =
     (case dropWhile isspace_c str of
        [] \<Rightarrow> 0
      | c # cs \<Rightarrow>
          if c = CHR ''-'' then - digits_val 0 cs
          else if c = CHR ''+'' then digits_val 0 cs
          else digits_val 0 (c # cs))"

text \<open>\<open>htons\<close> takes its argument as a 16-bit value; the port is that value.\<close>

definition htons :: "int \<Rightarrow> 16 word" where
  "htons portno = word_of_int portno"

subsection \<open>The program\<close>

text \<open>
  How a run ends: the process has exited, or the script is used up and the process is
  blocked in \<open>accept\<close>, waiting for the next client.
\<close>

datatype outcome = Exited int | Blocked_in_accept

text \<open>
  A step of the program either ends the process (\<open>Inl\<close>, with the outcome and the final
  state) or goes on (\<open>Inr\<close>).
\<close>

type_synonym 'a step = "(outcome \<times> proc) + 'a"

definition exit_c :: "int \<Rightarrow> proc \<Rightarrow> outcome \<times> proc" where
  "exit_c status s = (Exited status, emit (Exit status) s)"

text \<open>\<open>error(msg)\<close>, lines 24 to 28: \<open>perror(msg); exit(1);\<close>\<close>

definition error :: "string \<Rightarrow> proc \<Rightarrow> outcome \<times> proc" where
  "error msg s = exit_c 1 (emit (Perror msg (errno s)) s)"

definition reply :: string where
  "reply = ''I got your message''"

text \<open>\<open>dostuff(sockfd)\<close>, lines 40 to 59.\<close>

definition dostuff :: "int \<Rightarrow> conn_event \<Rightarrow> proc \<Rightarrow> proc step" where
  "dostuff sockfd ev s =
     (let buffer = bzero 256;
          ((n, buffer), s) = sys_read (request ev) sockfd buffer (256 - 1) s
      in if n < 0 then Inl (error ''ERROR reading from socket'' s)
         else
           let s = emit (Printf (''Message from client: %s'' @ [newline]) buffer) s;
               (n, s) = sys_write (write_ret ev) sockfd reply 18 s
           in if n < 0 then Inl (error ''ERROR writing to socket'' s)
              else Inr s)"

text \<open>The branch \<open>pid == 0\<close> of the loop, lines 163 to 175: the child process.\<close>

definition child :: "int \<Rightarrow> int \<Rightarrow> conn_event \<Rightarrow> proc \<Rightarrow> outcome \<times> proc" where
  "child sockfd newsockfd ev s =
     (let s = sys_close sockfd s
      in case dostuff newsockfd ev s of
           Inl r \<Rightarrow> r
         | Inr s \<Rightarrow> exit_c 0 (sys_close newsockfd s))"

text \<open>The body of \<open>while (1)\<close>, lines 146 to 182.\<close>

definition iteration :: "int \<Rightarrow> conn_event \<Rightarrow> proc \<Rightarrow> proc step" where
  "iteration sockfd ev s =
     (let (newsockfd, s) = sys_accept (accept_ret ev) sockfd s
      in if newsockfd < 0 then Inl (error ''ERROR on accept'' s)
         else
           let (pid, s) = sys_fork (fork_ret ev) s
           in if pid < 0 then Inl (error ''ERROR on fork'' s)
              else if pid = 0 then Inl (child sockfd newsockfd ev s)
              else Inr (sys_close newsockfd s))"

fun accept_loop :: "int \<Rightarrow> conn_event list \<Rightarrow> proc \<Rightarrow> outcome \<times> proc" where
  "accept_loop sockfd [] s = (Blocked_in_accept, emit (Accept sockfd) s)"
| "accept_loop sockfd (ev # evs) s =
     (case iteration sockfd ev s of
        Inl r \<Rightarrow> r
      | Inr s' \<Rightarrow> accept_loop sockfd evs s')"

text \<open>\<open>main\<close>, lines 81 to 185; \<open>argc\<close> is the length of \<open>argv\<close>.\<close>

definition main :: "string list \<Rightarrow> env \<Rightarrow> outcome \<times> proc" where
  "main argv e =
     (let argc = int (length argv);
          s = emit Signal_SIGCHLD init_proc
      in if argc < 2 then
           exit_c 1 (emit (Fprintf_stderr (''ERROR, no port provided'' @ [newline])) s)
         else
           let (sockfd, s) = sys_socket (socket_ret e) s
           in if sockfd < 0 then error ''ERROR opening socket'' s
              else
                let portno = atoi (argv ! 1);
                    (b, s) = sys_bind (bind_ret e) sockfd (htons portno) s
                in if b < 0 then error ''ERROR on binding'' s
                   else
                     let (l, s) = sys_listen (listen_ret e) sockfd 5 s
                     in accept_loop sockfd (conns e) s)"

subsection \<open>The SIGCHLD handler\<close>

text \<open>
  The kernel's view of the server's children: those that have terminated and not been
  waited for, those still running, those whose entry has been released, and the number
  of \<open>waitpid\<close> calls the server has made.
\<close>

record children =
  zombies :: "int list"
  running :: "int list"
  reaped :: "int list"
  waitpid_calls :: nat

text \<open>
  \<open>waitpid(-1, NULL, WNOHANG)\<close>: releases one terminated child and returns its process
  id; returns 0 when children exist and none has terminated, -1 when there is no child.
\<close>

definition waitpid_any_nohang :: "children \<Rightarrow> int \<times> children" where
  "waitpid_any_nohang k =
     (let k = k\<lparr>waitpid_calls := Suc (waitpid_calls k)\<rparr>
      in case zombies k of
           z # zs \<Rightarrow> (z, k\<lparr>zombies := zs, reaped := reaped k @ [z]\<rparr>)
         | [] \<Rightarrow> (if running k = [] then - 1 else 0, k))"

text \<open>\<open>SigCatcher\<close>, lines 75 to 79.\<close>

function SigCatcher :: "children \<Rightarrow> children" where
  "SigCatcher k =
     (case waitpid_any_nohang k of
        (r, k') \<Rightarrow> if r > 0 then SigCatcher k' else k')"
  by pat_completeness auto
termination
  by (relation "measure (\<lambda>k. length (zombies k))")
     (auto simp: waitpid_any_nohang_def Let_def split: list.splits if_splits)

declare SigCatcher.simps [simp del]

subsection \<open>Observing a run\<close>

text \<open>The state a step leaves, whether the process has ended or goes on.\<close>

definition state_of :: "proc step \<Rightarrow> proc" where
  "state_of r = (case r of Inl (out, s) \<Rightarrow> s | Inr s \<Rightarrow> s)"

text \<open>The calls made between two states of one process.\<close>

definition new_calls :: "proc \<Rightarrow> proc \<Rightarrow> call list" where
  "new_calls s s' = drop (length (trace s)) (trace s')"

definition is_write :: "call \<Rightarrow> bool" where
  "is_write c = (case c of Write fd bytes \<Rightarrow> True | _ \<Rightarrow> False)"

text \<open>
  The 256-byte array of \<open>dostuff\<close> after a successful \<open>read\<close> that found the bytes
  \<open>d\<close>: what \<open>sys_read\<close> makes of the zeroed array.
\<close>

definition read_buffer :: "string \<Rightarrow> string" where
  "read_buffer d = take 255 d @ replicate (256 - length (take 255 d)) NUL"

text \<open>The single exchange goes through: the read and the write both succeed.\<close>

definition exchange_ok :: "conn_event \<Rightarrow> bool" where
  "exchange_ok ev =
     ((case request ev of Read_fails e \<Rightarrow> False | Data d \<Rightarrow> True) \<and> 0 \<le> fst (write_ret ev))"

section \<open>The paths through the program\<close>

lemma new_calls_append [simp]: "new_calls s (s'\<lparr>trace := trace s @ cs\<rparr>) = cs"
  by (simp add: new_calls_def)

lemma new_calls_append_errno [simp]:
  "new_calls s (s'\<lparr>trace := trace s @ cs, errno := e\<rparr>) = cs"
  by (simp add: new_calls_def)

lemma read_buffer_length: "length (read_buffer d) = 256"
  by (simp add: read_buffer_def)

lemma read_buffer_last: "read_buffer d ! 255 = NUL"
  by (simp add: read_buffer_def nth_append)

subsection \<open>dostuff\<close>

lemma dostuff_read_fails:
  "request ev = Read_fails e \<Longrightarrow>
   dostuff fd ev s =
     Inl (Exited 1,
          s\<lparr>trace := trace s @ [Read fd 255, Perror ''ERROR reading from socket'' e, Exit 1],
            errno := e\<rparr>)"
  by (simp add: dostuff_def sys_read_def error_def exit_c_def emit_def Let_def)

lemma dostuff_write_fails:
  "request ev = Data d \<Longrightarrow> fst (write_ret ev) < 0 \<Longrightarrow>
   dostuff fd ev s =
     Inl (Exited 1,
          s\<lparr>trace := trace s @ [Read fd 255,
                                Printf (''Message from client: %s'' @ [newline]) (read_buffer d),
                                Write fd ''I got your message'',
                                Perror ''ERROR writing to socket'' (snd (write_ret ev)), Exit 1],
            errno := snd (write_ret ev)\<rparr>)"
  by (simp add: dostuff_def sys_read_def sys_write_def set_errno_def error_def exit_c_def emit_def
      Let_def reply_def bzero_def read_buffer_def)

lemma dostuff_ok:
  "request ev = Data d \<Longrightarrow> 0 \<le> fst (write_ret ev) \<Longrightarrow>
   dostuff fd ev s =
     Inr (s\<lparr>trace := trace s @ [Read fd 255,
                                Printf (''Message from client: %s'' @ [newline]) (read_buffer d),
                                Write fd ''I got your message'']\<rparr>)"
  by (simp add: dostuff_def sys_read_def sys_write_def set_errno_def error_def exit_c_def emit_def
      Let_def reply_def bzero_def read_buffer_def)

subsection \<open>The child\<close>

lemma child_read_fails:
  "request ev = Read_fails e \<Longrightarrow>
   child sockfd newsockfd ev s =
     (Exited 1,
      s\<lparr>trace := trace s @ [Close sockfd, Read newsockfd 255,
                            Perror ''ERROR reading from socket'' e, Exit 1],
        fds := removeAll sockfd (fds s), errno := e\<rparr>)"
  by (simp add: child_def dostuff_read_fails sys_close_def emit_def)

lemma child_write_fails:
  "request ev = Data d \<Longrightarrow> fst (write_ret ev) < 0 \<Longrightarrow>
   child sockfd newsockfd ev s =
     (Exited 1,
      s\<lparr>trace := trace s @ [Close sockfd, Read newsockfd 255,
                            Printf (''Message from client: %s'' @ [newline]) (read_buffer d),
                            Write newsockfd ''I got your message'',
                            Perror ''ERROR writing to socket'' (snd (write_ret ev)), Exit 1],
        fds := removeAll sockfd (fds s), errno := snd (write_ret ev)\<rparr>)"
  by (simp add: child_def dostuff_write_fails sys_close_def emit_def)

lemma child_ok:
  "request ev = Data d \<Longrightarrow> 0 \<le> fst (write_ret ev) \<Longrightarrow>
   child sockfd newsockfd ev s =
     (Exited 0,
      s\<lparr>trace := trace s @ [Close sockfd, Read newsockfd 255,
                            Printf (''Message from client: %s'' @ [newline]) (read_buffer d),
                            Write newsockfd ''I got your message'',
                            Close newsockfd, Exit 0],
        fds := removeAll newsockfd (removeAll sockfd (fds s))\<rparr>)"
  by (simp add: child_def dostuff_ok sys_close_def emit_def exit_c_def)

subsection \<open>One round of the accept loop\<close>

lemma iteration_accept_fails:
  "fst (accept_ret ev) < 0 \<Longrightarrow>
   iteration sockfd ev s =
     Inl (Exited 1,
          s\<lparr>trace := trace s @ [Accept sockfd, Perror ''ERROR on accept'' (snd (accept_ret ev)), Exit 1],
            errno := snd (accept_ret ev)\<rparr>)"
  by (simp add: iteration_def sys_accept_def open_fd_def error_def exit_c_def emit_def)

lemma iteration_fork_fails:
  "0 \<le> fst (accept_ret ev) \<Longrightarrow> fst (fork_ret ev) < 0 \<Longrightarrow>
   iteration sockfd ev s =
     Inl (Exited 1,
          s\<lparr>trace := trace s @ [Accept sockfd, Fork, Perror ''ERROR on fork'' (snd (fork_ret ev)), Exit 1],
            fds := fst (accept_ret ev) # fds s,
            errno := snd (fork_ret ev)\<rparr>)"
  by (simp add: iteration_def sys_accept_def sys_fork_def set_errno_def open_fd_def error_def
      exit_c_def emit_def)

lemma iteration_child:
  "0 \<le> fst (accept_ret ev) \<Longrightarrow> fst (fork_ret ev) = 0 \<Longrightarrow>
   iteration sockfd ev s =
     Inl (child sockfd (fst (accept_ret ev)) ev
            (s\<lparr>trace := trace s @ [Accept sockfd, Fork], fds := fst (accept_ret ev) # fds s\<rparr>))"
  by (cases s) (simp add: iteration_def sys_accept_def sys_fork_def set_errno_def open_fd_def emit_def)

lemma iteration_parent:
  "0 \<le> fst (accept_ret ev) \<Longrightarrow> 0 < fst (fork_ret ev) \<Longrightarrow>
   iteration sockfd ev s =
     Inr (s\<lparr>trace := trace s @ [Accept sockfd, Fork, Close (fst (accept_ret ev))],
            fds := removeAll (fst (accept_ret ev)) (fds s)\<rparr>)"
  by (simp add: iteration_def sys_accept_def sys_fork_def sys_close_def set_errno_def open_fd_def
      emit_def)

subsection \<open>Start-up\<close>

lemma atoi_8080: "atoi ''8080'' = 8080"
  by (simp add: atoi_def isspace_c_def isdigit_c_def)

lemma startup_8080:
  "main [''server'', ''8080'']
     \<lparr>socket_ret = (3, E0), bind_ret = (0, E0), listen_ret = (0, E0), conns = cs\<rparr> =
   accept_loop 3 cs
     \<lparr>trace = [Signal_SIGCHLD, Socket, Bind 3 8080, Listen 3 5], fds = [3, 0, 1, 2], errno = E0\<rparr>"
  by (simp add: main_def sys_socket_def sys_bind_def sys_listen_def set_errno_def open_fd_def
      emit_def init_proc_def htons_def atoi_8080)

subsection \<open>The handler's loop\<close>

lemma SigCatcher_drains_aux:
  "zombies k = zs \<Longrightarrow> \<forall>p \<in> set zs. 0 < p \<Longrightarrow>
     SigCatcher k = k\<lparr>zombies := [], reaped := reaped k @ zs,
                       waitpid_calls := waitpid_calls k + length zs + 1\<rparr>"
proof (induction zs arbitrary: k)
  case Nil
  then show ?case
    by (subst SigCatcher.simps) (cases k, simp add: waitpid_any_nohang_def)
next
  case (Cons z zs)
  let ?k' = "k\<lparr>zombies := zs, reaped := reaped k @ [z], waitpid_calls := Suc (waitpid_calls k)\<rparr>"
  have w: "waitpid_any_nohang k = (z, ?k')"
    using Cons.prems(1) by (cases k) (simp add: waitpid_any_nohang_def)
  have pos: "0 < z" using Cons.prems(2) by simp
  have "SigCatcher k = SigCatcher ?k'"
    using w pos by (subst SigCatcher.simps) simp
  also have "\<dots> = ?k'\<lparr>zombies := [], reaped := reaped ?k' @ zs,
                       waitpid_calls := waitpid_calls ?k' + length zs + 1\<rparr>"
    using Cons.prems(2) by (intro Cons.IH) simp_all
  finally show ?case by (cases k) simp
qed

section \<open>Properties\<close>

subsection \<open>The Worker\<close>

text \<open>
  C1. When the read on an accepted connection returns a request of 0 to 255 bytes, the
  only \<open>write\<close> that \<open>dostuff\<close> makes hands the connection exactly the bytes
  \<open>I got your message\<close>: 18 of them, none a newline, whatever the request holds and
  whatever the write then returns.
\<close>

theorem dostuff_fixed_reply:
  "request ev = Data req \<Longrightarrow> length req \<le> 255 \<Longrightarrow>
     filter is_write (new_calls s (state_of (dostuff sockfd ev s))) = [Write sockfd ''I got your message'']
     \<and> length ''I got your message'' = 18
     \<and> newline \<notin> set ''I got your message''"
proof -
  assume req: "request ev = Data req"
  show ?thesis
  proof (cases "fst (write_ret ev) < 0")
    case True
    then show ?thesis
      by (simp add: dostuff_write_fails [OF req] state_of_def is_write_def newline_def)
  next
    case False
    then have "0 \<le> fst (write_ret ev)" by simp
    then show ?thesis
      by (simp add: dostuff_ok [OF req] state_of_def is_write_def newline_def)
  qed
qed

theorem dostuff_fixed_reply_witness:
  "length (''hello'' @ [newline]) \<le> 255
   \<and> filter is_write (new_calls init_proc
        (state_of (dostuff 4 \<lparr>accept_ret = (4, E0), fork_ret = (0, E0),
                             request = Data (''hello'' @ [newline]), write_ret = (18, E0)\<rparr> init_proc)))
     = [Write 4 ''I got your message'']"
  using dostuff_fixed_reply [of "\<lparr>accept_ret = (4, E0), fork_ret = (0, E0),
      request = Data (''hello'' @ [newline]), write_ret = (18, E0)\<rparr>" "''hello'' @ [newline]" init_proc 4]
  by simp

text \<open>
  C4. A read that finds no bytes returns 0, and \<open>dostuff\<close> goes on as for any request:
  it prints the empty message and writes the fixed reply. In every run, \<open>dostuff\<close>
  reports a read failure exactly when \<open>read\<close> has returned a negative value.
\<close>

theorem dostuff_empty_request:
  "(request ev = Data [] \<longrightarrow>
      fst (fst (sys_read (request ev) sockfd (bzero 256) (256 - 1) s)) = 0
      \<and> take 3 (new_calls s (state_of (dostuff sockfd ev s))) =
          [Read sockfd 255, Printf (''Message from client: %s'' @ [newline]) (replicate 256 NUL),
           Write sockfd ''I got your message''])
   \<and> ((\<exists>e. Perror ''ERROR reading from socket'' e \<in> set (new_calls s (state_of (dostuff sockfd ev s))))
        \<longleftrightarrow> fst (fst (sys_read (request ev) sockfd (bzero 256) (256 - 1) s)) < 0)"
proof (cases "request ev")
  case (Read_fails e)
  then show ?thesis
    by (simp add: dostuff_read_fails [OF Read_fails] state_of_def sys_read_def Let_def)
next
  case (Data d)
  show ?thesis
  proof (cases "fst (write_ret ev) < 0")
    case True
    then show ?thesis
      by (auto simp add: dostuff_write_fails [OF Data] Data state_of_def sys_read_def Let_def
          read_buffer_def)
  next
    case False
    then have "0 \<le> fst (write_ret ev)" by simp
    then show ?thesis
      by (auto simp add: dostuff_ok [OF Data] Data state_of_def sys_read_def Let_def
          read_buffer_def)
  qed
qed

theorem dostuff_empty_request_witness:
  "new_calls init_proc
     (state_of (dostuff 4 \<lparr>accept_ret = (4, E0), fork_ret = (0, E0),
                          request = Data [], write_ret = (18, E0)\<rparr> init_proc))
   = [Read 4 255, Printf (''Message from client: %s'' @ [newline]) (replicate 256 NUL),
      Write 4 ''I got your message'']"
proof -
  let ?ev = "\<lparr>accept_ret = (4, E0), fork_ret = (0, E0), request = Data [], write_ret = (18, E0)\<rparr>"
  have n: "length (new_calls init_proc (state_of (dostuff 4 ?ev init_proc))) = 3"
    by (simp add: dostuff_ok [of ?ev "[]"] state_of_def)
  from dostuff_empty_request [of ?ev 4 init_proc] n show ?thesis
    by simp
qed

text \<open>
  C10. The array that \<open>dostuff\<close> passes to \<open>printf\<close> for \<open>%s\<close> has 256 bytes and its
  last byte is NUL, whatever the request holds: the array was zeroed and the read stored
  at most 255 bytes. So the string that \<open>printf\<close> reads ends inside the array.
\<close>

theorem dostuff_printf_nul_terminated:
  "Printf fmt buf \<in> set (new_calls s (state_of (dostuff sockfd ev s))) \<Longrightarrow>
     length buf = 256 \<and> buf ! 255 = NUL \<and> length (c_str buf) \<le> 255"
proof -
  assume p: "Printf fmt buf \<in> set (new_calls s (state_of (dostuff sockfd ev s)))"
  have "\<exists>d. buf = read_buffer d"
  proof (cases "request ev")
    case (Read_fails e)
    with p show ?thesis
      by (simp add: dostuff_read_fails [OF Read_fails] state_of_def)
  next
    case (Data d)
    show ?thesis
    proof (cases "fst (write_ret ev) < 0")
      case True
      with p show ?thesis
        by (auto simp add: dostuff_write_fails [OF Data] state_of_def)
    next
      case False
      then have "0 \<le> fst (write_ret ev)" by simp
      with p show ?thesis
        by (auto simp add: dostuff_ok [OF Data] state_of_def)
    qed
  qed
  then obtain d where b: "buf = read_buffer d" ..
  have len: "length buf = 256" by (simp add: b read_buffer_length)
  have nul: "buf ! 255 = NUL" by (simp add: b read_buffer_last)
  have "length (c_str buf) \<le> 255"
  proof (rule ccontr)
    assume "\<not> length (c_str buf) \<le> 255"
    then have "255 < length (takeWhile (\<lambda>c. c \<noteq> NUL) buf)" by (simp add: c_str_def)
    then have "buf ! 255 \<noteq> NUL"
      using takeWhile_nth nth_mem set_takeWhileD
      by (metis (mono_tags, lifting))
    with nul show False by simp
  qed
  with len nul show ?thesis by simp
qed

theorem dostuff_printf_nul_terminated_witness:
  "Printf (''Message from client: %s'' @ [newline]) (read_buffer (replicate 300 CHR ''x''))
     \<in> set (new_calls init_proc
          (state_of (dostuff 4 \<lparr>accept_ret = (4, E0), fork_ret = (0, E0),
                               request = Data (replicate 300 CHR ''x''), write_ret = (18, E0)\<rparr> init_proc)))
   \<and> length (read_buffer (replicate 300 CHR ''x'')) = 256
   \<and> read_buffer (replicate 300 CHR ''x'') ! 255 = NUL
   \<and> length (c_str (read_buffer (replicate 300 CHR ''x''))) \<le> 255"
proof -
  let ?ev = "\<lparr>accept_ret = (4, E0), fork_ret = (0, E0),
              request = Data (replicate 300 CHR ''x''), write_ret = (18, E0)\<rparr>"
  have m: "Printf (''Message from client: %s'' @ [newline]) (read_buffer (replicate 300 CHR ''x''))
             \<in> set (new_calls init_proc (state_of (dostuff 4 ?ev init_proc)))"
    by (simp add: dostuff_ok [of ?ev "replicate 300 CHR ''x''"] state_of_def)
  from dostuff_printf_nul_terminated [OF m] m show ?thesis
    by simp
qed

text \<open>
  C7, as the code has it. With the connection open and distinct from the listening
  socket, the child calls \<open>close\<close> on the connection, as its last call before \<open>exit(0)\<close>,
  only when the read and the write have both succeeded. When either fails, \<open>error\<close>
  ends the child with status 1: it has made no \<open>close\<close> call on the connection, and the
  descriptor is still open when \<open>exit\<close> is called.
\<close>

theorem child_closes_connection_only_on_success:
  "newsockfd \<noteq> sockfd \<Longrightarrow> newsockfd \<in> set (fds s) \<Longrightarrow>
   (case child sockfd newsockfd ev s of
      (out, s') \<Rightarrow>
        if exchange_ok ev then
          out = Exited 0
          \<and> (\<exists>cs. new_calls s s' = cs @ [Close newsockfd, Exit 0])
          \<and> newsockfd \<notin> set (fds s')
        else
          out = Exited 1
          \<and> Close newsockfd \<notin> set (new_calls s s')
          \<and> newsockfd \<in> set (fds s'))"
proof (cases "request ev")
  case (Read_fails e)
  assume "newsockfd \<noteq> sockfd" "newsockfd \<in> set (fds s)"
  then show ?thesis
    by (simp add: child_read_fails [OF Read_fails] exchange_ok_def Read_fails new_calls_def)
next
  case (Data d)
  assume h: "newsockfd \<noteq> sockfd" "newsockfd \<in> set (fds s)"
  show ?thesis
  proof (cases "fst (write_ret ev) < 0")
    case True
    with h show ?thesis
      by (simp add: child_write_fails [OF Data] exchange_ok_def Data new_calls_def)
  next
    case False
    then have "0 \<le> fst (write_ret ev)" by simp
    with h show ?thesis
      by (simp add: child_ok [OF Data] exchange_ok_def Data new_calls_def)
  qed
qed

theorem child_closes_connection_only_on_success_witness:
  "(4::int) \<noteq> 3 \<and> (4::int) \<in> set (fds \<lparr>trace = [], fds = [4, 3, 0, 1, 2], errno = E0\<rparr>)
   \<and> fst (child 3 4 \<lparr>accept_ret = (4, E0), fork_ret = (0, E0), request = Data ''hi'',
                       write_ret = (18, E0)\<rparr>
             \<lparr>trace = [], fds = [4, 3, 0, 1, 2], errno = E0\<rparr>) = Exited 0
   \<and> fst (child 3 4 \<lparr>accept_ret = (4, E0), fork_ret = (0, E0), request = Data ''hi'',
                       write_ret = (- 1, EPIPE)\<rparr>
             \<lparr>trace = [], fds = [4, 3, 0, 1, 2], errno = E0\<rparr>) = Exited 1"
  using
    child_closes_connection_only_on_success [of 4 3 "\<lparr>trace = [], fds = [4, 3, 0, 1, 2], errno = E0\<rparr>"
      "\<lparr>accept_ret = (4, E0), fork_ret = (0, E0), request = Data ''hi'', write_ret = (18, E0)\<rparr>"]
    child_closes_connection_only_on_success [of 4 3 "\<lparr>trace = [], fds = [4, 3, 0, 1, 2], errno = E0\<rparr>"
      "\<lparr>accept_ret = (4, E0), fork_ret = (0, E0), request = Data ''hi'', write_ret = (- 1, EPIPE)\<rparr>"]
  by (simp add: exchange_ok_def split: prod.splits)

text \<open>
  C7, as the claim states it, fails: a child whose read fails with ECONNRESET makes the
  calls \<open>close(3)\<close> (the listening socket), \<open>read\<close>, \<open>perror\<close>, \<open>exit(1)\<close>, and no
  \<open>close(4)\<close> on its connection, which is still in its descriptor table at the exit.
\<close>

theorem child_read_failure_counterexample:
  "main [''server'', ''8080'']
     \<lparr>socket_ret = (3, E0), bind_ret = (0, E0), listen_ret = (0, E0),
      conns = [\<lparr>accept_ret = (4, E0), fork_ret = (0, E0), request = Read_fails ECONNRESET,
                write_ret = (18, E0)\<rparr>]\<rparr>
   = (Exited 1,
      \<lparr>trace = [Signal_SIGCHLD, Socket, Bind 3 8080, Listen 3 5, Accept 3, Fork, Close 3,
                Read 4 255, Perror ''ERROR reading from socket'' ECONNRESET, Exit 1],
       fds = [4, 0, 1, 2], errno = ECONNRESET\<rparr>)"
  by (simp add: startup_8080 iteration_child child_read_fails)

subsection \<open>The Acceptor\<close>

text \<open>
  C2, as the code has it. Every negative return of \<open>accept\<close>, whatever \<open>errno\<close> it
  leaves, ends the server: the loop calls \<open>perror("ERROR on accept")\<close> and \<open>exit(1)\<close>,
  and the rest of the script (the connections still to come) is never looked at.
\<close>

theorem accept_failure_always_fatal:
  "fst (accept_ret ev) < 0 \<Longrightarrow>
   accept_loop sockfd (ev # evs) s =
     (Exited 1,
      s\<lparr>trace := trace s @ [Accept sockfd, Perror ''ERROR on accept'' (snd (accept_ret ev)), Exit 1],
        errno := snd (accept_ret ev)\<rparr>)"
  by (simp add: iteration_accept_fails)

theorem accept_failure_always_fatal_witness:
  "accept_loop 3
     [\<lparr>accept_ret = (- 1, EBADF), fork_ret = (1001, E0), request = Data ''a'', write_ret = (18, E0)\<rparr>,
      \<lparr>accept_ret = (4, E0), fork_ret = (1002, E0), request = Data ''b'', write_ret = (18, E0)\<rparr>]
     \<lparr>trace = [], fds = [3, 0, 1, 2], errno = E0\<rparr>
   = (Exited 1,
      \<lparr>trace = [Accept 3, Perror ''ERROR on accept'' EBADF, Exit 1], fds = [3, 0, 1, 2],
       errno = EBADF\<rparr>)"
  using accept_failure_always_fatal [of
      "\<lparr>accept_ret = (- 1, EBADF), fork_ret = (1001, E0), request = Data ''a'', write_ret = (18, E0)\<rparr>"
      3
      "[\<lparr>accept_ret = (4, E0), fork_ret = (1002, E0), request = Data ''b'', write_ret = (18, E0)\<rparr>]"
      "\<lparr>trace = [], fds = [3, 0, 1, 2], errno = E0\<rparr>"]
  by simp

text \<open>
  C2, as the claim states it, fails: \<open>accept\<close> fails once with EAGAIN (resource
  temporarily unavailable) while a second client is waiting; the server exits with
  status 1 after one \<open>accept\<close> call, and the second client is never accepted.
\<close>

theorem transient_accept_failure_counterexample:
  "main [''server'', ''8080'']
     \<lparr>socket_ret = (3, E0), bind_ret = (0, E0), listen_ret = (0, E0),
      conns = [\<lparr>accept_ret = (- 1, EAGAIN), fork_ret = (1001, E0), request = Data ''a'',
                write_ret = (18, E0)\<rparr>,
               \<lparr>accept_ret = (4, E0), fork_ret = (1002, E0), request = Data ''b'',
                write_ret = (18, E0)\<rparr>]\<rparr>
   = (Exited 1,
      \<lparr>trace = [Signal_SIGCHLD, Socket, Bind 3 8080, Listen 3 5, Accept 3,
                Perror ''ERROR on accept'' EAGAIN, Exit 1],
       fds = [3, 0, 1, 2], errno = EAGAIN\<rparr>)"
  by (simp add: startup_8080 iteration_accept_fails)

text \<open>
  C3, as the code has it. When \<open>fork\<close> returns a negative value, the server calls
  \<open>perror("ERROR on fork")\<close> and \<open>exit(1)\<close>: it makes no \<open>close\<close> call on the accepted
  connection, which is still in its descriptor table, and the loop does not go on.
\<close>

theorem fork_failure_fatal:
  "0 \<le> fst (accept_ret ev) \<Longrightarrow> fst (fork_ret ev) < 0 \<Longrightarrow>
   accept_loop sockfd (ev # evs) s =
     (Exited 1,
      s\<lparr>trace := trace s @ [Accept sockfd, Fork, Perror ''ERROR on fork'' (snd (fork_ret ev)), Exit 1],
        fds := fst (accept_ret ev) # fds s,
        errno := snd (fork_ret ev)\<rparr>)"
  by (simp add: iteration_fork_fails)

theorem fork_failure_fatal_witness:
  "accept_loop 3
     [\<lparr>accept_ret = (4, E0), fork_ret = (- 1, ENOMEM), request = Data ''a'', write_ret = (18, E0)\<rparr>,
      \<lparr>accept_ret = (5, E0), fork_ret = (1002, E0), request = Data ''b'', write_ret = (18, E0)\<rparr>]
     \<lparr>trace = [], fds = [3, 0, 1, 2], errno = E0\<rparr>
   = (Exited 1,
      \<lparr>trace = [Accept 3, Fork, Perror ''ERROR on fork'' ENOMEM, Exit 1], fds = [4, 3, 0, 1, 2],
       errno = ENOMEM\<rparr>)"
  using fork_failure_fatal [of
      "\<lparr>accept_ret = (4, E0), fork_ret = (- 1, ENOMEM), request = Data ''a'', write_ret = (18, E0)\<rparr>"
      3
      "[\<lparr>accept_ret = (5, E0), fork_ret = (1002, E0), request = Data ''b'', write_ret = (18, E0)\<rparr>]"
      "\<lparr>trace = [], fds = [3, 0, 1, 2], errno = E0\<rparr>"]
  by simp

text \<open>
  C3, as the claim states it, fails: \<open>fork\<close> fails with EAGAIN for the first connection
  while a second client is waiting; the server exits with status 1 without a \<open>close\<close>
  call, and the second client is never accepted.
\<close>

theorem fork_failure_counterexample:
  "main [''server'', ''8080'']
     \<lparr>socket_ret = (3, E0), bind_ret = (0, E0), listen_ret = (0, E0),
      conns = [\<lparr>accept_ret = (4, E0), fork_ret = (- 1, EAGAIN), request = Data ''a'',
                write_ret = (18, E0)\<rparr>,
               \<lparr>accept_ret = (4, E0), fork_ret = (1002, E0), request = Data ''b'',
                write_ret = (18, E0)\<rparr>]\<rparr>
   = (Exited 1,
      \<lparr>trace = [Signal_SIGCHLD, Socket, Bind 3 8080, Listen 3 5, Accept 3, Fork,
                Perror ''ERROR on fork'' EAGAIN, Exit 1],
       fds = [4, 3, 0, 1, 2], errno = EAGAIN\<rparr>)"
  by (simp add: startup_8080 iteration_fork_fails)

text \<open>
  C8. Take a round in which \<open>accept\<close> hands out a descriptor that was not open and is not
  the listening socket, and \<open>fork\<close> succeeds. In the parent the round is \<open>accept\<close>,
  \<open>fork\<close>, \<open>close\<close> of the connection: the parent goes back to the loop holding the
  listening socket and not the connection. In the child the first call after \<open>fork\<close> is
  \<open>close\<close> of the listening socket, and \<open>dostuff\<close> runs in a process that holds the
  connection and not the listening socket.
\<close>

theorem dispatch_transfers_ownership:
  "0 \<le> fst (accept_ret ev) \<Longrightarrow> fst (accept_ret ev) \<noteq> sockfd \<Longrightarrow>
   fst (accept_ret ev) \<notin> set (fds s) \<Longrightarrow> sockfd \<in> set (fds s) \<Longrightarrow>
     (0 < fst (fork_ret ev) \<longrightarrow>
        (\<exists>s'. iteration sockfd ev s = Inr s'
           \<and> new_calls s s' = [Accept sockfd, Fork, Close (fst (accept_ret ev))]
           \<and> fst (accept_ret ev) \<notin> set (fds s') \<and> sockfd \<in> set (fds s')))
   \<and> (fst (fork_ret ev) = 0 \<longrightarrow>
        (\<exists>s3. iteration sockfd ev s =
                 Inl (case dostuff (fst (accept_ret ev)) ev s3 of
                        Inl r \<Rightarrow> r
                      | Inr s4 \<Rightarrow> exit_c 0 (sys_close (fst (accept_ret ev)) s4))
           \<and> new_calls s s3 = [Accept sockfd, Fork, Close sockfd]
           \<and> sockfd \<notin> set (fds s3) \<and> fst (accept_ret ev) \<in> set (fds s3)))"
proof (intro conjI impI)
  assume h: "0 \<le> fst (accept_ret ev)" "fst (accept_ret ev) \<noteq> sockfd"
    "fst (accept_ret ev) \<notin> set (fds s)" "sockfd \<in> set (fds s)"
  {
    assume "0 < fst (fork_ret ev)"
    with h show "\<exists>s'. iteration sockfd ev s = Inr s'
           \<and> new_calls s s' = [Accept sockfd, Fork, Close (fst (accept_ret ev))]
           \<and> fst (accept_ret ev) \<notin> set (fds s') \<and> sockfd \<in> set (fds s')"
      by (simp add: iteration_parent new_calls_def)
  }
  {
    assume z: "fst (fork_ret ev) = 0"
    let ?s3 = "s\<lparr>trace := trace s @ [Accept sockfd, Fork, Close sockfd],
                  fds := removeAll sockfd (fst (accept_ret ev) # fds s)\<rparr>"
    have "iteration sockfd ev s =
            Inl (case dostuff (fst (accept_ret ev)) ev ?s3 of
                   Inl r \<Rightarrow> r
                 | Inr s4 \<Rightarrow> exit_c 0 (sys_close (fst (accept_ret ev)) s4))"
      using h(1) z by (simp add: iteration_child child_def sys_close_def emit_def)
    moreover have "new_calls s ?s3 = [Accept sockfd, Fork, Close sockfd]"
      by (simp add: new_calls_def)
    moreover have "sockfd \<notin> set (fds ?s3) \<and> fst (accept_ret ev) \<in> set (fds ?s3)"
      using h by simp
    ultimately show "\<exists>s3. iteration sockfd ev s =
                 Inl (case dostuff (fst (accept_ret ev)) ev s3 of
                        Inl r \<Rightarrow> r
                      | Inr s4 \<Rightarrow> exit_c 0 (sys_close (fst (accept_ret ev)) s4))
           \<and> new_calls s s3 = [Accept sockfd, Fork, Close sockfd]
           \<and> sockfd \<notin> set (fds s3) \<and> fst (accept_ret ev) \<in> set (fds s3)"
      by blast
  }
qed

theorem dispatch_transfers_ownership_witness:
  "(\<exists>s'. iteration 3 \<lparr>accept_ret = (4, E0), fork_ret = (1001, E0), request = Data ''hi'',
                       write_ret = (18, E0)\<rparr>
            \<lparr>trace = [], fds = [3, 0, 1, 2], errno = E0\<rparr> = Inr s'
      \<and> new_calls \<lparr>trace = [], fds = [3, 0, 1, 2], errno = E0\<rparr> s' = [Accept 3, Fork, Close 4]
      \<and> 4 \<notin> set (fds s') \<and> 3 \<in> set (fds s'))
   \<and> (\<exists>s3. iteration 3 \<lparr>accept_ret = (4, E0), fork_ret = (0, E0), request = Data ''hi'',
                         write_ret = (18, E0)\<rparr>
              \<lparr>trace = [], fds = [3, 0, 1, 2], errno = E0\<rparr> =
              Inl (case dostuff 4 \<lparr>accept_ret = (4, E0), fork_ret = (0, E0), request = Data ''hi'',
                                  write_ret = (18, E0)\<rparr> s3 of
                     Inl r \<Rightarrow> r
                   | Inr s4 \<Rightarrow> exit_c 0 (sys_close 4 s4))
      \<and> new_calls \<lparr>trace = [], fds = [3, 0, 1, 2], errno = E0\<rparr> s3 = [Accept 3, Fork, Close 3]
      \<and> 3 \<notin> set (fds s3) \<and> 4 \<in> set (fds s3))"
  using
    dispatch_transfers_ownership [of
      "\<lparr>accept_ret = (4, E0), fork_ret = (1001, E0), request = Data ''hi'', write_ret = (18, E0)\<rparr>"
      3 "\<lparr>trace = [], fds = [3, 0, 1, 2], errno = E0\<rparr>"]
    dispatch_transfers_ownership [of
      "\<lparr>accept_ret = (4, E0), fork_ret = (0, E0), request = Data ''hi'', write_ret = (18, E0)\<rparr>"
      3 "\<lparr>trace = [], fds = [3, 0, 1, 2], errno = E0\<rparr>"]
  by (simp cong: sum.case_cong)

subsection \<open>Start-up\<close>



text \<open>
  C9. Started without the port argument (\<open>argc < 2\<close>), the server prints the usage error
  on standard error and exits with status 1; the only call before that is the
  installation of the signal handler, so no socket has been created.
\<close>

theorem main_no_port_exits:
  "length argv < 2 \<Longrightarrow>
     main argv e =
       (Exited 1,
        \<lparr>trace = [Signal_SIGCHLD, Fprintf_stderr (''ERROR, no port provided'' @ [newline]), Exit 1],
         fds = [0, 1, 2], errno = E0\<rparr>)"
  by (simp add: main_def exit_c_def emit_def init_proc_def)

theorem main_no_port_exits_witness:
  "length [''server''] < 2
   \<and> main [''server'']
       \<lparr>socket_ret = (3, E0), bind_ret = (0, E0), listen_ret = (0, E0), conns = []\<rparr> =
     (Exited 1,
      \<lparr>trace = [Signal_SIGCHLD, Fprintf_stderr (''ERROR, no port provided'' @ [newline]), Exit 1],
       fds = [0, 1, 2], errno = E0\<rparr>)"
  using main_no_port_exits [of "[''server'']"] by simp

subsection \<open>The Reaper\<close>

text \<open>
  C5. One invocation of \<open>SigCatcher\<close> returns, and when it does every child that had
  terminated has been released, not only the first: with \<open>n\<close> terminated children (their
  process ids are positive) it makes \<open>n + 1\<close> non-blocking \<open>waitpid\<close> calls, one for each
  of them and the last one that finds none, and leaves the running children alone.
\<close>

theorem SigCatcher_drains_all:
  "\<forall>p \<in> set (zombies k). 0 < p \<Longrightarrow>
     zombies (SigCatcher k) = []
     \<and> reaped (SigCatcher k) = reaped k @ zombies k
     \<and> running (SigCatcher k) = running k
     \<and> waitpid_calls (SigCatcher k) = waitpid_calls k + length (zombies k) + 1"
  by (simp add: SigCatcher_drains_aux [OF refl])

theorem SigCatcher_drains_all_witness:
  "SigCatcher \<lparr>zombies = [1001, 1002, 1003], running = [1004], reaped = [], waitpid_calls = 0\<rparr>
     = \<lparr>zombies = [], running = [1004], reaped = [1001, 1002, 1003], waitpid_calls = 4\<rparr>"
proof -
  let ?k = "\<lparr>zombies = [1001, 1002, 1003], running = [1004], reaped = [], waitpid_calls = 0\<rparr>"
  have "\<forall>p \<in> set (zombies ?k). 0 < p" by simp
  from SigCatcher_drains_all [OF this] show ?thesis
    by (cases "SigCatcher ?k") simp
qed

end
